theory Spec2Isabelle
  imports Main
begin

section \<open>The static-site deployment descriptor (infra/infra_stack.py)\<close>

text \<open>
  The repository is one constructor, \<^verbatim>\<open>InfraStack.__init__\<close>, which declares a website
  bucket, attaches one statement to the bucket's resource policy, declares a CloudFront
  distribution in front of the bucket, declares a bucket deployment and two outputs.
  The constructs themselves belong to the provider's toolkit; what the repository fixes
  is which constructs are declared, in which order, under which identifiers and with
  which arguments. The embedding records exactly that: every keyword argument of the
  source is a field of a record, every enumeration member a constructor, and the
  stack under construction (\<^verbatim>\<open>self\<close>) is a state that each statement of the
  constructor returns updated.
\<close>

subsection \<open>Enumerations and values of the toolkit that the source names\<close>

datatype RemovalPolicy = DESTROY | RETAIN | SNAPSHOT | RETAIN_ON_UPDATE_OR_DELETE

datatype BlockPublicAccess = BLOCK_ALL | BLOCK_ACLS

datatype BucketAccessControl =
  PRIVATE | PUBLIC_READ | PUBLIC_READ_WRITE | AUTHENTICATED_READ

datatype ViewerProtocolPolicy = HTTPS_ONLY | REDIRECT_TO_HTTPS | ALLOW_ALL

datatype CachePolicy =
  CACHING_OPTIMIZED | CACHING_OPTIMIZED_FOR_UNCOMPRESSED_OBJECTS | CACHING_DISABLED

datatype Principal =
  AnyPrincipal | AccountPrincipal string | ServicePrincipal string | ArnPrincipal string

text \<open>
  A construct held in a Python variable (\<^verbatim>\<open>website_bucket\<close>, \<^verbatim>\<open>distribution\<close>) is
  referred to by its construct identifier, the key under which the stack stores it.
  Values the provider resolves only at deployment (an ARN, a domain name, a URL) stay
  symbolic: they name the construct they are read from.
\<close>

datatype Arn = BucketArn string | ObjectsArn string string

datatype Origin = S3BucketOrigin string

datatype Source = Asset string

datatype Token = Lit string | DistributionDomainName string | BucketWebsiteUrl string

subsection \<open>Constructs and their arguments\<close>

record PolicyStatement =
  actions :: "string list"
  resources :: "Arn list"
  principals :: "Principal list"

text \<open>
  The six keyword arguments of \<^verbatim>\<open>s3.Bucket\<close> as the source passes them.
  \<open>access_control\<close> is the canned-ACL argument, which the source does not pass, and
  \<open>resource_policy\<close> holds the statements added by \<^verbatim>\<open>add_to_resource_policy\<close>.
\<close>

record Bucket =
  website_index_document :: string
  website_error_document :: string
  public_read_access :: bool
  block_public_access :: BlockPublicAccess
  removal_policy :: RemovalPolicy
  auto_delete_objects :: bool
  access_control :: "BucketAccessControl option"
  resource_policy :: "PolicyStatement list"

record BehaviorOptions =
  origin :: Origin
  viewer_protocol_policy :: ViewerProtocolPolicy
  cache_policy :: CachePolicy

record ErrorResponse =
  http_status :: int
  response_http_status :: int
  response_page_path :: string

text \<open>
  \<open>additional_behaviors\<close> is the path-pattern table of further behaviours; the source
  does not pass it.
\<close>

record Distribution =
  default_behavior :: BehaviorOptions
  additional_behaviors :: "(string \<times> BehaviorOptions) list"
  default_root_object :: string
  error_responses :: "ErrorResponse list"

record BucketDeployment =
  sources :: "Source list"
  destination_bucket :: string
  distribution :: string
  distribution_paths :: "string list"

record CfnOutput =
  output_value :: "Token list"

datatype Construct =
    BucketC Bucket
  | DistributionC Distribution
  | BucketDeploymentC BucketDeployment
  | CfnOutputC CfnOutput

text \<open>
  The stack: what \<^verbatim>\<open>super().__init__(scope, construct_id, **kwargs)\<close> receives, and
  the constructs declared under it, keyed by identifier, in declaration order.
\<close>

record ('s, 'k) Stack =
  scope :: 's
  construct_id :: string
  kwargs :: 'k
  children :: "(string \<times> Construct) list"

subsection \<open>The path of the asset directory\<close>

text \<open>
  \<^verbatim>\<open>os.path.join(os.path.dirname(os.path.dirname(__file__)), "dist")\<close>, with the
  POSIX flavour of \<^verbatim>\<open>os.path\<close>: \<^verbatim>\<open>dirname\<close> keeps what precedes the last
  separator and strips trailing separators unless nothing else is left; \<^verbatim>\<open>join\<close>
  restarts at an absolute component and inserts a separator where one is missing.
\<close>

definition sep :: char where
  "sep = CHR ''/''"

definition rstrip_sep :: "string \<Rightarrow> string" where
  "rstrip_sep s = rev (dropWhile (\<lambda>c. c = sep) (rev s))"

definition os_path_dirname :: "string \<Rightarrow> string" where
  "os_path_dirname p =
     (let head = rev (dropWhile (\<lambda>c. c \<noteq> sep) (rev p)) in
      if head \<noteq> [] \<and> head \<noteq> replicate (length head) sep then rstrip_sep head
      else head)"

definition os_path_join :: "string \<Rightarrow> string \<Rightarrow> string" where
  "os_path_join a b =
     (if b \<noteq> [] \<and> hd b = sep then b
      else if a = [] \<or> last a = sep then a @ b
      else a @ [sep] @ b)"

subsection \<open>Operations on the stack under construction\<close>

definition Stack_init :: "'s \<Rightarrow> string \<Rightarrow> 'k \<Rightarrow> ('s, 'k) Stack" where
  "Stack_init sc cid kw =
     \<lparr>scope = sc, construct_id = cid, kwargs = kw, children = []\<rparr>"

text \<open>Declaring a construct under \<^verbatim>\<open>self\<close> appends it to the stack's children.\<close>

definition add_child ::
  "string \<Rightarrow> Construct \<Rightarrow> ('s, 'k) Stack \<Rightarrow> ('s, 'k) Stack" where
  "add_child cid c self = self\<lparr>children := children self @ [(cid, c)]\<rparr>"

definition arn_for_objects :: "string \<Rightarrow> string \<Rightarrow> Arn" where
  "arn_for_objects bucket key_pattern = ObjectsArn bucket key_pattern"

text \<open>
  \<^verbatim>\<open>bucket.add_to_resource_policy(statement)\<close> mutates the bucket the variable refers
  to: the statement joins the policy of the bucket stored under that identifier, and
  nothing else changes.
\<close>

fun add_statement :: "PolicyStatement \<Rightarrow> Construct \<Rightarrow> Construct" where
  "add_statement st (BucketC b) = BucketC (b\<lparr>resource_policy := resource_policy b @ [st]\<rparr>)"
| "add_statement st c = c"

definition add_to_resource_policy ::
  "string \<Rightarrow> PolicyStatement \<Rightarrow> ('s, 'k) Stack \<Rightarrow> ('s, 'k) Stack" where
  "add_to_resource_policy bucket st self =
     self\<lparr>children :=
       map (\<lambda>(cid, c). if cid = bucket then (cid, add_statement st c) else (cid, c))
         (children self)\<rparr>"

subsection \<open>The constructor\<close>

text \<open>
  The states of \<^verbatim>\<open>self\<close> after each statement of \<^verbatim>\<open>InfraStack.__init__\<close> from
  the declaration of the bucket on, in order. \<open>file\<close> is the module's
  \<^verbatim>\<open>__file__\<close>.
\<close>

definition InfraStack_states ::
  "'s \<Rightarrow> string \<Rightarrow> 'k \<Rightarrow> string \<Rightarrow> ('s, 'k) Stack list" where
  "InfraStack_states sc cid kw file =
     (let self0 = Stack_init sc cid kw;
          website_bucket = ''ElectronOrbitalViewerBucket'';
          self1 = add_child website_bucket
            (BucketC \<lparr>website_index_document = ''index.html'',
                      website_error_document = ''index.html'',
                      public_read_access = True,
                      block_public_access = BLOCK_ACLS,
                      removal_policy = DESTROY,
                      auto_delete_objects = True,
                      access_control = None,
                      resource_policy = []\<rparr>) self0;
          self2 = add_to_resource_policy website_bucket
            \<lparr>actions = [''s3:GetObject''],
             resources = [arn_for_objects website_bucket ''*''],
             principals = [AnyPrincipal]\<rparr> self1;
          distribution_v = ''ElectronOrbitalViewerDistribution'';
          self3 = add_child distribution_v
            (DistributionC
              \<lparr>default_behavior =
                 \<lparr>origin = S3BucketOrigin website_bucket,
                  viewer_protocol_policy = REDIRECT_TO_HTTPS,
                  cache_policy = CACHING_OPTIMIZED\<rparr>,
               additional_behaviors = [],
               default_root_object = ''index.html'',
               error_responses =
                 [\<lparr>http_status = 404,
                   response_http_status = 200,
                   response_page_path = ''/index.html''\<rparr>]\<rparr>) self2;
          self4 = add_child ''DeployElectronOrbitalViewer''
            (BucketDeploymentC
              \<lparr>sources =
                 [Asset (os_path_join (os_path_dirname (os_path_dirname file)) ''dist'')],
               destination_bucket = website_bucket,
               distribution = distribution_v,
               distribution_paths = [''/*'']\<rparr>) self3;
          self5 = add_child ''CloudFrontURL''
            (CfnOutputC
              \<lparr>output_value = [Lit ''https://'', DistributionDomainName distribution_v]\<rparr>)
            self4;
          self6 = add_child ''BucketURL''
            (CfnOutputC \<lparr>output_value = [BucketWebsiteUrl website_bucket]\<rparr>) self5
      in [self1, self2, self3, self4, self5, self6])"

text \<open>The constructed stack is the state after the last statement.\<close>

definition InfraStack :: "'s \<Rightarrow> string \<Rightarrow> 'k \<Rightarrow> string \<Rightarrow> ('s, 'k) Stack" where
  "InfraStack sc cid kw file = last (InfraStack_states sc cid kw file)"

subsection \<open>Reading the declared constructs\<close>

fun as_bucket :: "Construct \<Rightarrow> Bucket option" where
  "as_bucket (BucketC b) = Some b"
| "as_bucket c = None"

fun as_distribution :: "Construct \<Rightarrow> Distribution option" where
  "as_distribution (DistributionC d) = Some d"
| "as_distribution c = None"

fun as_deployment :: "Construct \<Rightarrow> BucketDeployment option" where
  "as_deployment (BucketDeploymentC d) = Some d"
| "as_deployment c = None"

definition buckets :: "('s, 'k) Stack \<Rightarrow> Bucket list" where
  "buckets self = List.map_filter as_bucket (map snd (children self))"

definition distributions :: "('s, 'k) Stack \<Rightarrow> Distribution list" where
  "distributions self = List.map_filter as_distribution (map snd (children self))"

definition deployments :: "('s, 'k) Stack \<Rightarrow> BucketDeployment list" where
  "deployments self = List.map_filter as_deployment (map snd (children self))"

text \<open>The behaviours of a distribution: the default one, then the additional ones.\<close>

definition behaviors :: "Distribution \<Rightarrow> BehaviorOptions list" where
  "behaviors d = default_behavior d # map snd (additional_behaviors d)"

text \<open>The declared buckets together with the identifiers they are declared under.\<close>

fun as_named_bucket :: "string \<times> Construct \<Rightarrow> (string \<times> Bucket) option" where
  "as_named_bucket (cid, BucketC b) = Some (cid, b)"
| "as_named_bucket (cid, c) = None"

definition named_buckets :: "('s, 'k) Stack \<Rightarrow> (string \<times> Bucket) list" where
  "named_buckets self = List.map_filter as_named_bucket (children self)"

text \<open>The statements of a bucket's policy that name the arbitrary principal.\<close>

definition public_statements :: "Bucket \<Rightarrow> PolicyStatement list" where
  "public_statements b =
     filter (\<lambda>st. AnyPrincipal \<in> set (principals st)) (resource_policy b)"

subsection \<open>The toolkit behind the bucket's flags\<close>

text \<open>
  The constructor passes \<^verbatim>\<open>public_read_access=True\<close> and
  \<^verbatim>\<open>auto_delete_objects=True\<close>; what the toolkit attaches to the bucket's policy for
  them is not code of the repository.
\<close>

text \<open>
  Modelled from the spec: the toolkit's expansion of \<^verbatim>\<open>public_read_access=True\<close>,
  which is missing from the sources. "Public-read is granted only for object-read
  actions, scoped to all objects under the resource": one statement that allows
  \<^verbatim>\<open>s3:GetObject\<close> on every object of the bucket to any principal.
\<close>

definition grant_public_access :: "string \<Rightarrow> PolicyStatement" where
  "grant_public_access bucket =
     \<lparr>actions = [''s3:GetObject''],
      resources = [arn_for_objects bucket ''*''],
      principals = [AnyPrincipal]\<rparr>"

text \<open>
  Modelled from the spec: the role of the toolkit's deletion handler, which is missing
  from the sources. Its ARN is resolved at deployment and stays symbolic.
\<close>

definition auto_delete_provider_role :: string where
  "auto_delete_provider_role = ''CustomS3AutoDeleteObjectsCustomResourceProviderRole.Arn''"

text \<open>
  Modelled from the spec: the toolkit's expansion of \<^verbatim>\<open>auto_delete_objects=True\<close>,
  which is missing from the sources. The bucket is "destroyed (and emptied) on stack
  teardown": the toolkit's own deletion handler, a role of the stack named by its
  ARN, may list and delete the bucket's objects.
\<close>

definition enable_auto_delete_objects :: "string \<Rightarrow> PolicyStatement" where
  "enable_auto_delete_objects bucket =
     \<lparr>actions = [''s3:PutBucketPolicy'', ''s3:GetBucket*'', ''s3:List*'', ''s3:DeleteObject*''],
      resources = [BucketArn bucket, arn_for_objects bucket ''*''],
      principals = [ArnPrincipal auto_delete_provider_role]\<rparr>"

text \<open>
  The policy document of a declared bucket: the statements the toolkit derives from the
  two flags when the bucket is constructed, then the statements added by
  \<^verbatim>\<open>add_to_resource_policy\<close>.
\<close>

definition policy_document :: "string \<Rightarrow> Bucket \<Rightarrow> PolicyStatement list" where
  "policy_document cid b =
     (if public_read_access b then [grant_public_access cid] else []) @
     (if auto_delete_objects b then [enable_auto_delete_objects cid] else []) @
     resource_policy b"

text \<open>
  A principal is arbitrary when it matches every caller: \<^verbatim>\<open>AnyPrincipal\<close>, which is
  the ARN principal \<^verbatim>\<open>*\<close>, under either spelling.
\<close>

fun arbitrary_principal :: "Principal \<Rightarrow> bool" where
  "arbitrary_principal AnyPrincipal = True"
| "arbitrary_principal (ArnPrincipal a) = (a = ''*'')"
| "arbitrary_principal (AccountPrincipal a) = False"
| "arbitrary_principal (ServicePrincipal a) = False"

definition grants_to_anyone :: "PolicyStatement \<Rightarrow> bool" where
  "grants_to_anyone st = list_ex arbitrary_principal (principals st)"

definition public_grants :: "string \<Rightarrow> Bucket \<Rightarrow> PolicyStatement list" where
  "public_grants cid b = filter grants_to_anyone (policy_document cid b)"

subsection \<open>Construction against the local file system\<close>

datatype error = CannotFindAsset string

text \<open>
  Modelled from the spec: the toolkit's staging of a local asset, which is missing from
  the sources. "Invalid local asset path -> fails immediately and locally, before any
  remote call": when the deployment is declared, the path given to
  \<^verbatim>\<open>Source.asset\<close> is looked up in the local file system, and a path that names no
  directory there (absent or malformed) raises. \<open>isdir\<close> is the file system: the paths
  that name a directory.
\<close>

definition Source_asset :: "(string \<Rightarrow> bool) \<Rightarrow> string \<Rightarrow> error + Source" where
  "Source_asset isdir path =
     (if isdir path then Inr (Asset path) else Inl (CannotFindAsset path))"

text \<open>
  The constructor as a computation that can raise. Nothing in
  \<^verbatim>\<open>InfraStack.__init__\<close> catches the exception of the staging, so it leaves the
  constructor and the caller receives no stack; otherwise the caller receives the
  stack of all statements.
\<close>

definition InfraStack_init ::
  "(string \<Rightarrow> bool) \<Rightarrow> 's \<Rightarrow> string \<Rightarrow> 'k \<Rightarrow> string \<Rightarrow> error + ('s, 'k) Stack" where
  "InfraStack_init isdir sc cid kw file =
     (case Source_asset isdir
             (os_path_join (os_path_dirname (os_path_dirname file)) ''dist'') of
        Inl e \<Rightarrow> Inl e
      | Inr source \<Rightarrow> Inr (InfraStack sc cid kw file))"

section \<open>What the constructor declares\<close>

subsection \<open>The declared constructs, computed\<close>

lemmas InfraStack_unfold =
  InfraStack_states_def Let_def Stack_init_def add_child_def add_to_resource_policy_def

lemma children_InfraStack:
  "children (InfraStack sc cid kw file) =
     [(''ElectronOrbitalViewerBucket'',
        BucketC \<lparr>website_index_document = ''index.html'',
                 website_error_document = ''index.html'',
                 public_read_access = True,
                 block_public_access = BLOCK_ACLS,
                 removal_policy = DESTROY,
                 auto_delete_objects = True,
                 access_control = None,
                 resource_policy =
                   [\<lparr>actions = [''s3:GetObject''],
                     resources = [arn_for_objects ''ElectronOrbitalViewerBucket'' ''*''],
                     principals = [AnyPrincipal]\<rparr>]\<rparr>),
      (''ElectronOrbitalViewerDistribution'',
        DistributionC
          \<lparr>default_behavior =
             \<lparr>origin = S3BucketOrigin ''ElectronOrbitalViewerBucket'',
              viewer_protocol_policy = REDIRECT_TO_HTTPS,
              cache_policy = CACHING_OPTIMIZED\<rparr>,
           additional_behaviors = [],
           default_root_object = ''index.html'',
           error_responses =
             [\<lparr>http_status = 404,
               response_http_status = 200,
               response_page_path = ''/index.html''\<rparr>]\<rparr>),
      (''DeployElectronOrbitalViewer'',
        BucketDeploymentC
          \<lparr>sources =
             [Asset (os_path_join (os_path_dirname (os_path_dirname file)) ''dist'')],
           destination_bucket = ''ElectronOrbitalViewerBucket'',
           distribution = ''ElectronOrbitalViewerDistribution'',
           distribution_paths = [''/*'']\<rparr>),
      (''CloudFrontURL'',
        CfnOutputC
          \<lparr>output_value =
             [Lit ''https://'', DistributionDomainName ''ElectronOrbitalViewerDistribution'']\<rparr>),
      (''BucketURL'',
        CfnOutputC \<lparr>output_value = [BucketWebsiteUrl ''ElectronOrbitalViewerBucket'']\<rparr>)]"
  by (simp add: InfraStack_def InfraStack_unfold)

lemma buckets_InfraStack:
  "buckets (InfraStack sc cid kw file) =
     [\<lparr>website_index_document = ''index.html'',
       website_error_document = ''index.html'',
       public_read_access = True,
       block_public_access = BLOCK_ACLS,
       removal_policy = DESTROY,
       auto_delete_objects = True,
       access_control = None,
       resource_policy =
         [\<lparr>actions = [''s3:GetObject''],
           resources = [arn_for_objects ''ElectronOrbitalViewerBucket'' ''*''],
           principals = [AnyPrincipal]\<rparr>]\<rparr>]"
  by (simp add: buckets_def children_InfraStack)

lemma distributions_InfraStack:
  "distributions (InfraStack sc cid kw file) =
     [\<lparr>default_behavior =
         \<lparr>origin = S3BucketOrigin ''ElectronOrbitalViewerBucket'',
          viewer_protocol_policy = REDIRECT_TO_HTTPS,
          cache_policy = CACHING_OPTIMIZED\<rparr>,
       additional_behaviors = [],
       default_root_object = ''index.html'',
       error_responses =
         [\<lparr>http_status = 404,
           response_http_status = 200,
           response_page_path = ''/index.html''\<rparr>]\<rparr>]"
  by (simp add: distributions_def children_InfraStack)

lemma deployments_InfraStack:
  "deployments (InfraStack sc cid kw file) =
     [\<lparr>sources =
         [Asset (os_path_join (os_path_dirname (os_path_dirname file)) ''dist'')],
       destination_bucket = ''ElectronOrbitalViewerBucket'',
       distribution = ''ElectronOrbitalViewerDistribution'',
       distribution_paths = [''/*'']\<rparr>]"
  by (simp add: deployments_def children_InfraStack)

text \<open>
  In every state the constructor passes through there is one bucket, with ACLs
  blocked and no canned ACL: neither the policy statement nor the later declarations
  touch those arguments.
\<close>

lemma buckets_InfraStack_states:
  "self \<in> set (InfraStack_states sc cid kw file) \<Longrightarrow>
     map (\<lambda>b. (block_public_access b, access_control b)) (buckets self) =
       [(BLOCK_ACLS, None)]"
  by (auto simp add: InfraStack_unfold buckets_def)

text \<open>
  The asset path on a typical checkout: the grandparent directory of the module,
  then \<^verbatim>\<open>dist\<close>.
\<close>

lemma asset_path_example:
  "os_path_join (os_path_dirname (os_path_dirname ''/repo/infra/infra_stack.py'')) ''dist''
     = ''/repo/dist''"
  by (simp add: os_path_join_def os_path_dirname_def rstrip_sep_def sep_def Let_def)

subsection \<open>The storage resource\<close>

text \<open>
  C1. Whatever the scope, the identifier and the keyword arguments of the
  instantiation, the stack declares one bucket, and its website configuration has
  both the index document and the error document equal to the string
  \<^verbatim>\<open>index.html\<close>.
\<close>

theorem website_documents_index_html:
  "map (\<lambda>b. (website_index_document b, website_error_document b))
     (buckets (InfraStack sc cid kw file)) = [(''index.html'', ''index.html'')]"
  by (simp add: buckets_InfraStack)

text \<open>
  C6. The declared bucket carries the removal policy \<^verbatim>\<open>DESTROY\<close> together with the
  auto-delete-objects flag, the two arguments that make teardown delete the bucket
  and empty it first.
\<close>

theorem bucket_destroyed_and_emptied:
  "map (\<lambda>b. (removal_policy b, auto_delete_objects b))
     (buckets (InfraStack sc cid kw file)) = [(DESTROY, True)]"
  by (simp add: buckets_InfraStack)

text \<open>
  C7. In the policy document of the declared bucket (the statements the toolkit derives
  from \<^verbatim>\<open>public_read_access\<close> and \<^verbatim>\<open>auto_delete_objects\<close>, and the statement the
  constructor adds), every statement that names an arbitrary principal allows the
  single action \<^verbatim>\<open>s3:GetObject\<close> on the single resource \<^verbatim>\<open>arn_for_objects("*")\<close> of
  that same bucket, so no statement grants any other action to an arbitrary
  principal. The public grants are exactly two: the one of the flag and the one the
  constructor adds.
\<close>

theorem public_grants_read_objects_only:
  "(\<forall>(cid', b) \<in> set (named_buckets (InfraStack sc cid kw file)).
      \<forall>st \<in> set (policy_document cid' b).
        grants_to_anyone st \<longrightarrow>
          actions st = [''s3:GetObject''] \<and> resources st = [arn_for_objects cid' ''*'']) \<and>
   map (\<lambda>(cid', b). (cid', public_grants cid' b))
     (named_buckets (InfraStack sc cid kw file)) =
     [(''ElectronOrbitalViewerBucket'',
       [\<lparr>actions = [''s3:GetObject''],
         resources = [ObjectsArn ''ElectronOrbitalViewerBucket'' ''*''],
         principals = [AnyPrincipal]\<rparr>,
        \<lparr>actions = [''s3:GetObject''],
         resources = [ObjectsArn ''ElectronOrbitalViewerBucket'' ''*''],
         principals = [AnyPrincipal]\<rparr>])]"
  by (simp add: named_buckets_def children_InfraStack policy_document_def public_grants_def
      grants_to_anyone_def grant_public_access_def enable_auto_delete_objects_def
      auto_delete_provider_role_def arn_for_objects_def)

text \<open>
  The statement is not vacuous: on the instantiation of the repository's tests the
  bucket is declared, the statement derived from \<^verbatim>\<open>public_read_access\<close> is in its
  policy document and names an arbitrary principal, and the theorem yields its scope.
\<close>

theorem public_grants_read_objects_only_witness:
  "(''ElectronOrbitalViewerBucket'',
      hd (buckets (InfraStack () ''electron-orbital-viewer'' () ''/repo/infra/infra_stack.py'')))
     \<in> set (named_buckets
          (InfraStack () ''electron-orbital-viewer'' () ''/repo/infra/infra_stack.py'')) \<and>
   grant_public_access ''ElectronOrbitalViewerBucket''
     \<in> set (policy_document ''ElectronOrbitalViewerBucket''
          (hd (buckets
            (InfraStack () ''electron-orbital-viewer'' () ''/repo/infra/infra_stack.py'')))) \<and>
   grants_to_anyone (grant_public_access ''ElectronOrbitalViewerBucket'') \<and>
   actions (grant_public_access ''ElectronOrbitalViewerBucket'') = [''s3:GetObject''] \<and>
   resources (grant_public_access ''ElectronOrbitalViewerBucket'')
     = [arn_for_objects ''ElectronOrbitalViewerBucket'' ''*'']"
proof -
  let ?S = "InfraStack () ''electron-orbital-viewer'' () ''/repo/infra/infra_stack.py''"
  let ?B = "''ElectronOrbitalViewerBucket''"
  have nb: "(?B, hd (buckets ?S)) \<in> set (named_buckets ?S)"
    by (simp add: named_buckets_def buckets_InfraStack children_InfraStack)
  have mem: "grant_public_access ?B \<in> set (policy_document ?B (hd (buckets ?S)))"
    by (simp add: buckets_InfraStack policy_document_def)
  have pub: "grants_to_anyone (grant_public_access ?B)"
    by (simp add: grants_to_anyone_def grant_public_access_def)
  from public_grants_read_objects_only
    [of "()" "''electron-orbital-viewer''" "()" "''/repo/infra/infra_stack.py''"]
  have "\<forall>(cid', b) \<in> set (named_buckets ?S).
      \<forall>st \<in> set (policy_document cid' b).
        grants_to_anyone st \<longrightarrow>
          actions st = [''s3:GetObject''] \<and> resources st = [arn_for_objects cid' ''*'']"
    by (rule conjunct1)
  with nb mem pub
  have "actions (grant_public_access ?B) = [''s3:GetObject''] \<and>
        resources (grant_public_access ?B) = [arn_for_objects ?B ''*'']"
    by blast
  with nb mem pub show ?thesis by blast
qed

text \<open>
  C10. In every state the constructor passes through, the bucket blocks public access
  through ACLs (\<^verbatim>\<open>BLOCK_ACLS\<close>) and has no canned ACL; in the constructed stack the
  statements of its resource policy for the arbitrary principal are exactly the one
  object-read statement. Public read is therefore granted through the resource policy
  and through nothing else the constructor declares.
\<close>

theorem acls_blocked_policy_grants_read:
  "(\<forall>self \<in> set (InfraStack_states sc cid kw file).
      map (\<lambda>b. (block_public_access b, access_control b)) (buckets self) =
        [(BLOCK_ACLS, None)]) \<and>
   map public_statements (buckets (InfraStack sc cid kw file)) =
     [[\<lparr>actions = [''s3:GetObject''],
        resources = [arn_for_objects ''ElectronOrbitalViewerBucket'' ''*''],
        principals = [AnyPrincipal]\<rparr>]]"
  by (simp add: buckets_InfraStack_states buckets_InfraStack public_statements_def)

text \<open>
  The constructed stack is itself one of the states the invariant ranges over, and the
  theorem gives the invariant there.
\<close>

theorem acls_blocked_policy_grants_read_witness:
  "InfraStack () ''electron-orbital-viewer'' () ''/repo/infra/infra_stack.py''
     \<in> set (InfraStack_states () ''electron-orbital-viewer'' ()
          ''/repo/infra/infra_stack.py'') \<and>
   map (\<lambda>b. (block_public_access b, access_control b))
     (buckets (InfraStack () ''electron-orbital-viewer'' () ''/repo/infra/infra_stack.py'')) =
     [(BLOCK_ACLS, None)]"
proof -
  have "InfraStack () ''electron-orbital-viewer'' () ''/repo/infra/infra_stack.py''
     \<in> set (InfraStack_states () ''electron-orbital-viewer'' ()
          ''/repo/infra/infra_stack.py'')"
    by (simp add: InfraStack_def InfraStack_states_def Let_def)
  with acls_blocked_policy_grants_read
    [of "()" "''electron-orbital-viewer''" "()" "''/repo/infra/infra_stack.py''"]
  show ?thesis by blast
qed

subsection \<open>The distribution\<close>

text \<open>
  C2. Every instantiation declares exactly one distribution.
\<close>

theorem exactly_one_distribution:
  "length (distributions (InfraStack sc cid kw file)) = 1"
  by (simp add: distributions_InfraStack)

text \<open>
  C3. The declared distribution has exactly one behaviour, the default one, and the
  viewer protocol policy of that behaviour is \<^verbatim>\<open>REDIRECT_TO_HTTPS\<close>.
\<close>

theorem single_behavior_redirects_to_https:
  "map (\<lambda>d. map viewer_protocol_policy (behaviors d))
     (distributions (InfraStack sc cid kw file)) = [[REDIRECT_TO_HTTPS]]"
  by (simp add: distributions_InfraStack behaviors_def)

text \<open>
  C4. The error responses of the declared distribution are exactly one mapping: HTTP
  404 is answered with HTTP 200 and the page \<^verbatim>\<open>/index.html\<close>.
\<close>

theorem only_404_maps_to_index_html:
  "map error_responses (distributions (InfraStack sc cid kw file)) =
     [[\<lparr>http_status = 404, response_http_status = 200,
        response_page_path = ''/index.html''\<rparr>]]"
  by (simp add: distributions_InfraStack)

subsection \<open>The content-sync action\<close>

text \<open>
  C5. The one declared deployment invalidates, on the declared distribution, the path
  list \<^verbatim>\<open>["/*"]\<close>; the list is a constant of the constructor and depends on none
  of its inputs.
\<close>

theorem invalidation_paths_everything:
  "map (\<lambda>d. (distribution d, distribution_paths d))
     (deployments (InfraStack sc cid kw file)) =
   [(''ElectronOrbitalViewerDistribution'', [''/*''])]"
  by (simp add: deployments_InfraStack)

subsection \<open>A missing asset directory\<close>

text \<open>
  When the asset directory exists, construction returns the stack that the preceding
  theorems describe.
\<close>

lemma InfraStack_init_returns:
  "isdir (os_path_join (os_path_dirname (os_path_dirname file)) ''dist'') \<Longrightarrow>
     InfraStack_init isdir sc cid kw file = Inr (InfraStack sc cid kw file)"
  by (simp add: InfraStack_init_def Source_asset_def)

text \<open>
  C9. If the path handed to the content-sync source names no directory of the local
  file system, construction fails with the error of the asset staging: the caller
  receives the error and no stack, so there is no resource graph that could be
  submitted to the provider.
\<close>

theorem invalid_asset_path_fails_locally:
  "\<not> isdir (os_path_join (os_path_dirname (os_path_dirname file)) ''dist'') \<Longrightarrow>
     InfraStack_init isdir sc cid kw file =
       Inl (CannotFindAsset (os_path_join (os_path_dirname (os_path_dirname file)) ''dist''))"
  by (simp add: InfraStack_init_def Source_asset_def)

text \<open>
  A checkout where the application has not been built: \<^verbatim>\<open>/repo\<close> and
  \<^verbatim>\<open>/repo/infra\<close> exist, \<^verbatim>\<open>/repo/dist\<close> does not.
\<close>

theorem invalid_asset_path_fails_locally_witness:
  "os_path_join (os_path_dirname (os_path_dirname ''/repo/infra/infra_stack.py'')) ''dist''
     \<notin> {''/repo'', ''/repo/infra''} \<and>
   InfraStack_init (\<lambda>p. p \<in> {''/repo'', ''/repo/infra''})
       () ''electron-orbital-viewer'' () ''/repo/infra/infra_stack.py''
     = Inl (CannotFindAsset ''/repo/dist'')"
  using invalid_asset_path_fails_locally
    [of "\<lambda>p. p \<in> {''/repo'', ''/repo/infra''}" "''/repo/infra/infra_stack.py''"
       "()" "''electron-orbital-viewer''" "()"]
  by (simp add: asset_path_example)

end
